theory Spec2Isabelle
  imports Complex_Main
begin

section \<open>JavaScript values\<close>

text \<open>
  The values that travel through the code: the arguments of an Action Message
  (\<^verbatim>\<open>Record<string, any>\<close>) and the fields of a parsed JSON request body.
  An object is an association list in property order.
\<close>

datatype jsval =
    JUndefined
  | JNull
  | JBool bool
  | JNum real
  | JStr string
  | JArr "jsval list"
  | JObj "(string \<times> jsval) list"

text \<open>\<^verbatim>\<open>!v\<close> is \<open>\<not> truthy v\<close>. JSON has no NaN, so a number is falsy only when zero.\<close>

fun truthy :: "jsval \<Rightarrow> bool" where
  "truthy JUndefined = False"
| "truthy JNull = False"
| "truthy (JBool b) = b"
| "truthy (JNum n) = (n \<noteq> 0)"
| "truthy (JStr s) = (s \<noteq> [])"
| "truthy (JArr xs) = True"
| "truthy (JObj kvs) = True"

text \<open>
  \<^verbatim>\<open>v.length\<close> on a value that is neither null nor undefined: strings and
  arrays have one, a number or a boolean has none (the read gives undefined), an
  object has one only as a property of its own.
\<close>

fun js_length :: "jsval \<Rightarrow> jsval" where
  "js_length (JStr s) = JNum (of_nat (length s))"
| "js_length (JArr xs) = JNum (of_nat (length xs))"
| "js_length (JObj kvs) = (case map_of kvs ''length'' of Some v \<Rightarrow> v | None \<Rightarrow> JUndefined)"
| "js_length v = JUndefined"

text \<open>\<^verbatim>\<open>body?.name\<close> for a body that is a JSON object (an absent body reads as the empty object).\<close>

definition js_prop :: "(string \<times> jsval) list \<Rightarrow> string \<Rightarrow> jsval" where
  "js_prop body name = (case map_of body name of Some v \<Rightarrow> v | None \<Rightarrow> JUndefined)"

text \<open>\<^verbatim>\<open>a ?? b\<close>\<close>

definition nullish :: "jsval \<Rightarrow> jsval \<Rightarrow> jsval" where
  "nullish a b = (if a = JUndefined \<or> a = JNull then b else a)"


text \<open>
  A value of the type \<^verbatim>\<open>number\<close>: a finite number (as a real), an infinity or NaN.
  \<open>js_lt a b\<close> is \<^verbatim>\<open>a < b\<close>, \<open>js_gt a b\<close> is \<^verbatim>\<open>a > b\<close> and \<open>js_le a b\<close> is
  \<^verbatim>\<open>a <= b\<close>; every comparison with NaN is false.
\<close>

datatype jsnum = Num real | PosInf | NegInf | NaN





section \<open>Domain Actions: PrivateApiFaceTime\<close>

text \<open>
  Only the member \<open>OTHER\<close> of the enum \<^verbatim>\<open>TransactionType\<close> is visible in the
  source; \<open>KIND\<close> stands for the members declared elsewhere.
\<close>

datatype TransactionType = OTHER | KIND string

text \<open>\<^verbatim>\<open>new TransactionPromise(kind)\<close>: the transaction request a Domain Action hands over.\<close>

datatype TransactionPromise = TransactionPromise TransactionType

text \<open>
  \<^verbatim>\<open>this.sendApiMessage(action, args, request?)\<close> is inherited from
  \<^verbatim>\<open>PrivateApiAction\<close>. A Domain Action takes it as a parameter: a function of
  the action name, the arguments and the optional transaction request that
  transforms the dispatcher's state \<open>'s\<close> and returns an \<open>'r\<close>.
\<close>

type_synonym ('s, 'r) dispatcher =
  "string \<Rightarrow> (string \<times> jsval) list \<Rightarrow> TransactionPromise option \<Rightarrow> 's \<Rightarrow> 'r \<times> 's"

definition answerCall :: "('s, 'r) dispatcher \<Rightarrow> string \<Rightarrow> 's \<Rightarrow> 'r \<times> 's" where
  "answerCall sendApiMessage uuid =
     (let action = ''answer-call''
      in sendApiMessage action [(''callUUID'', JStr uuid)] None)"

definition leaveCall :: "('s, 'r) dispatcher \<Rightarrow> string \<Rightarrow> 's \<Rightarrow> 'r \<times> 's" where
  "leaveCall sendApiMessage uuid =
     (let action = ''leave-call''
      in sendApiMessage action [(''callUUID'', JStr uuid)] None)"

text \<open>
  \<^verbatim>\<open>generateLink(uuid: string = null)\<close>: \<open>None\<close> is a call without the
  argument (or with null); the default and \<^verbatim>\<open>uuid ?? null\<close> both give null.
\<close>

definition generateLink :: "('s, 'r) dispatcher \<Rightarrow> string option \<Rightarrow> 's \<Rightarrow> 'r \<times> 's" where
  "generateLink sendApiMessage uuid =
     (let action = ''generate-link'';
          request = TransactionPromise OTHER;
          args = [(''callUUID'', nullish (case uuid of Some u \<Rightarrow> JStr u | None \<Rightarrow> JNull) JNull)]
      in sendApiMessage action args (Some request))"

definition admitParticipant :: "('s, 'r) dispatcher \<Rightarrow> string \<Rightarrow> string \<Rightarrow> 's \<Rightarrow> 'r \<times> 's" where
  "admitParticipant sendApiMessage conversationUuid handleUuid =
     (let action = ''admit-pending-member''
      in sendApiMessage action
           [(''conversationUUID'', JStr conversationUuid), (''handleUUID'', JStr handleUuid)]
           None)"

text \<open>
  A dispatcher that only records what it is asked to send: its state is the list
  of calls received, each the action name, the arguments and the request.
\<close>

type_synonym api_call = "string \<times> (string \<times> jsval) list \<times> TransactionPromise option"

definition recordCall :: "(api_call list, unit) dispatcher" where
  "recordCall action args request calls = ((), calls @ [(action, args, request)])"

definition requestsTransaction :: "api_call \<Rightarrow> bool" where
  "requestsTransaction c = (snd (snd c) \<noteq> None)"


section \<open>Transaction Registry\<close>

text \<open>
  Modelled from the spec: the error taxonomy of the design (the transaction manager
  and the class \<^verbatim>\<open>PrivateApiAction\<close> are not among the source files).
\<close>

datatype api_error =
    TransportUnavailable
  | Timeout
  | HelperReportedError string
  | UnknownTransaction
  | DuplicateIdentifier

text \<open>
  Modelled from the spec: the states of a transaction, \<open>Pending\<close> and the three
  terminal ones; what the caller receives in the end, a success payload or an error
  (a timeout is the error \<open>Timeout\<close>); and the transaction with its identifier, its
  kind and its time of creation.
\<close>

datatype TxState = Pending | Resolved | Rejected | TimedOut

datatype TransactionResult = Success jsval | Failure api_error

record Transaction =
  tx_id :: nat
  tx_kind :: TransactionType
  createdAt :: nat
  tx_state :: TxState

text \<open>
  Modelled from the spec: the Transaction Registry (the transaction manager that
  \<^verbatim>\<open>TransactionPromise\<close> belongs to is not among the source files).
  \<open>pending\<close> is the table of pending transactions keyed by identifier. A
  transaction's completion slot is shared with the caller and outlives the table
  entry, so the slots are kept beside the table: \<open>completions reg i\<close> lists every
  write to the slot of \<open>i\<close>, oldest first, each with the terminal state reached.
  \<open>idSource reg n\<close> is the \<open>n\<close>-th identifier the generator yields and
  \<open>idsDrawn\<close> counts those drawn so far; \<open>timeoutAfter\<close> is the configured timeout.
\<close>

record Registry =
  pending :: "nat \<rightharpoonup> Transaction"
  completions :: "nat \<Rightarrow> (TxState \<times> TransactionResult) list"
  idSource :: "nat \<Rightarrow> nat"
  idsDrawn :: nat
  timeoutAfter :: nat

text \<open>
  Modelled from the spec: \<open>create(kind)\<close> allocates an identifier, checks it
  against the table (a collision is the fatal \<open>DuplicateIdentifier\<close>, never an
  overwrite), builds a \<open>Pending\<close> transaction with a fresh slot and inserts it.
\<close>

definition create :: "TransactionType \<Rightarrow> nat \<Rightarrow> Registry \<Rightarrow> api_error + (Transaction \<times> Registry)" where
  "create kind now reg =
     (let i = idSource reg (idsDrawn reg) in
      if pending reg i \<noteq> None then Inl DuplicateIdentifier
      else
        let t = \<lparr>tx_id = i, tx_kind = kind, createdAt = now, tx_state = Pending\<rparr>
        in Inr (t, reg\<lparr>pending := (pending reg)(i \<mapsto> t),
                       completions := (completions reg)(i := []),
                       idsDrawn := Suc (idsDrawn reg)\<rparr>))"

text \<open>
  Modelled from the spec: a terminal transition of the transaction \<open>i\<close>. The state
  moves to \<open>st\<close>, \<open>res\<close> is delivered to the completion slot and the entry leaves
  the table.
\<close>

definition finish :: "nat \<Rightarrow> TxState \<Rightarrow> TransactionResult \<Rightarrow> Registry \<Rightarrow> Registry" where
  "finish i st res reg =
     reg\<lparr>pending := (pending reg)(i := None),
         completions := (completions reg)(i := completions reg i @ [(st, res)])\<rparr>"

text \<open>
  Modelled from the spec: \<open>resolve(id, payload)\<close> looks the id up; found and still
  \<open>Pending\<close>, it transitions to \<open>Resolved\<close>; not found or already terminal, it is
  a silent no-op. The flag returned says whether the transition took place.
\<close>

definition resolve :: "nat \<Rightarrow> jsval \<Rightarrow> Registry \<Rightarrow> bool \<times> Registry" where
  "resolve i payload reg =
     (case pending reg i of
        None \<Rightarrow> (False, reg)
      | Some t \<Rightarrow>
          if tx_state t = Pending then (True, finish i Resolved (Success payload) reg)
          else (False, reg))"

text \<open>Modelled from the spec: \<open>reject(id, error)\<close>, the same lookup and guard as \<open>resolve\<close>.\<close>

definition reject :: "nat \<Rightarrow> api_error \<Rightarrow> Registry \<Rightarrow> bool \<times> Registry" where
  "reject i err reg =
     (case pending reg i of
        None \<Rightarrow> (False, reg)
      | Some t \<Rightarrow>
          if tx_state t = Pending then (True, finish i Rejected (Failure err) reg)
          else (False, reg))"

text \<open>
  Modelled from the spec: the per-transaction timer, looking at the transaction
  \<open>i\<close> at time \<open>now\<close>. When its age exceeds the configured timeout while it is
  still \<open>Pending\<close>, it transitions to \<open>TimedOut\<close> and a timeout error is delivered.
\<close>

definition timeoutTx :: "nat \<Rightarrow> nat \<Rightarrow> Registry \<Rightarrow> bool \<times> Registry" where
  "timeoutTx now i reg =
     (case pending reg i of
        None \<Rightarrow> (False, reg)
      | Some t \<Rightarrow>
          if tx_state t = Pending \<and> now - createdAt t > timeoutAfter reg
          then (True, finish i TimedOut (Failure Timeout) reg)
          else (False, reg))"

text \<open>
  Modelled from the spec: the attempts that race on the registry, an inbound
  success or error message of the helper carrying an identifier (\<open>resolve\<close>,
  \<open>reject\<close>) and a timer looking at a transaction at some time. The registry's
  operations are atomic with respect to each other, so a concurrent execution is a
  sequence of attempts in some order.
\<close>

datatype Attempt =
    TryResolve nat jsval
  | TryReject nat api_error
  | TryTimeout nat nat

fun target :: "Attempt \<Rightarrow> nat" where
  "target (TryResolve i payload) = i"
| "target (TryReject i err) = i"
| "target (TryTimeout now i) = i"

fun attempt :: "Attempt \<Rightarrow> Registry \<Rightarrow> bool \<times> Registry" where
  "attempt (TryResolve i payload) reg = resolve i payload reg"
| "attempt (TryReject i err) reg = reject i err reg"
| "attempt (TryTimeout now i) reg = timeoutTx now i reg"

text \<open>
  Modelled from the spec: the attempts run in order, one atomic operation after
  the other. Returns, for each attempt, whether its transition took place, and the
  registry reached.
\<close>

fun attempts :: "Attempt list \<Rightarrow> Registry \<Rightarrow> bool list \<times> Registry" where
  "attempts [] reg = ([], reg)"
| "attempts (a # as) reg =
     (let (won, reg') = attempt a reg;
          (wins, reg'') = attempts as reg'
      in (won # wins, reg''))"

text \<open>The attempts on \<open>i\<close> whose transition took place.\<close>

definition winners :: "nat \<Rightarrow> Attempt list \<Rightarrow> Registry \<Rightarrow> Attempt list" where
  "winners i as reg =
     map fst (filter (\<lambda>(a, won). won \<and> target a = i) (zip as (fst (attempts as reg))))"

text \<open>
  Modelled from the spec: what an attempt delivers to a pending transaction \<open>t\<close>
  under the timeout \<open>limit\<close>; nothing when it is a timer that looks before the age
  exceeds it.
\<close>

fun delivery :: "nat \<Rightarrow> Transaction \<Rightarrow> Attempt \<Rightarrow> (TxState \<times> TransactionResult) option" where
  "delivery limit t (TryResolve i payload) = Some (Resolved, Success payload)"
| "delivery limit t (TryReject i err) = Some (Rejected, Failure err)"
| "delivery limit t (TryTimeout now i) =
     (if now - createdAt t > limit then Some (TimedOut, Failure Timeout) else None)"

text \<open>
  Modelled from the spec: ``whichever terminal state occurs first''. The first
  terminal state that a sequence of attempts brings to the pending transaction
  \<open>t\<close> with identifier \<open>i\<close> is the delivery of the first attempt on \<open>i\<close> that
  delivers at all.
\<close>

fun firstTerminal ::
  "nat \<Rightarrow> nat \<Rightarrow> Transaction \<Rightarrow> Attempt list \<Rightarrow> (TxState \<times> TransactionResult) option" where
  "firstTerminal limit i t [] = None"
| "firstTerminal limit i t (a # as) =
     (if target a = i \<and> delivery limit t a \<noteq> None then delivery limit t a
      else firstTerminal limit i t as)"


section \<open>Action Dispatcher\<close>

text \<open>
  Modelled from the spec: the Action Message sent outward,
  \<^verbatim>\<open>{ action, args, transactionId? }\<close>.
\<close>

record ActionMessage =
  msg_action :: string
  msg_args :: "(string \<times> jsval) list"
  msg_transactionId :: "nat option"

text \<open>
  Modelled from the spec: the state the Action Dispatcher works on. \<open>sent\<close> lists
  the messages handed to the Transport Adapter, oldest first; \<open>clock\<close> is the
  current time.
\<close>

record Dispatcher =
  transportReady :: bool
  registry :: Registry
  sent :: "ActionMessage list"
  clock :: nat

text \<open>
  Modelled from the spec: what a send returns at once, an acknowledgement without
  content or a handle on the transaction to await.
\<close>

datatype SendResult = Acknowledged | Handle nat

text \<open>
  Modelled from the spec: \<^verbatim>\<open>sendApiMessage(action, arguments, transactionRequest?)\<close>
  (the class \<^verbatim>\<open>PrivateApiAction\<close> is not among the source files). A transport
  that is not ready fails the call at once with \<open>TransportUnavailable\<close>. Without
  a request the message goes out with no transaction id. With a request the
  registry creates a transaction of the requested kind, its id is attached to the
  message, the message goes out and the handle is returned.
\<close>

definition sendApiMessage :: "(Dispatcher, api_error + SendResult) dispatcher" where
  "sendApiMessage action args request d =
     (if \<not> transportReady d then (Inl TransportUnavailable, d)
      else
        case request of
          None \<Rightarrow>
            (Inr Acknowledged,
             d\<lparr>sent := sent d @ [\<lparr>msg_action = action, msg_args = args, msg_transactionId = None\<rparr>]\<rparr>)
        | Some (TransactionPromise kind) \<Rightarrow>
            (case create kind (clock d) (registry d) of
               Inl e \<Rightarrow> (Inl e, d)
             | Inr (t, reg') \<Rightarrow>
                 (Inr (Handle (tx_id t)),
                  d\<lparr>registry := reg',
                    sent := sent d @
                      [\<lparr>msg_action = action, msg_args = args, msg_transactionId = Some (tx_id t)\<rparr>]\<rparr>)))"

text \<open>
  Modelled from the spec: what awaiting a handle gives in a registry: nothing while
  the slot is empty, then the first write to it.
\<close>

definition completed :: "nat \<Rightarrow> Registry \<Rightarrow> (TxState \<times> TransactionResult) option" where
  "completed i reg = (case completions reg i of [] \<Rightarrow> None | r # rs \<Rightarrow> Some r)"


section \<open>HTTP callers: ChatRouter\<close>

subsection \<open>String helpers of the platform\<close>





fun js_join :: "string \<Rightarrow> string list \<Rightarrow> string" where
  "js_join sep [] = []"
| "js_join sep [x] = x"
| "js_join sep (x # y # ys) = x @ sep @ js_join sep (y # ys)"


subsection \<open>Requests, responses and the collaborators\<close>

text \<open>Only \<open>IMESSAGE_ERROR\<close> of \<^verbatim>\<open>ErrorTypes\<close> is used.\<close>

datatype ErrorTypes = IMESSAGE_ERROR

record Metadata =
  md_total :: nat
  md_offset :: jsnum
  md_limit :: jsnum

text \<open>
  The bodies the response helpers build (\<^verbatim>\<open>createSuccessResponse(data, message?, metadata?)\<close>,
  \<^verbatim>\<open>createNotFoundResponse(message)\<close>, \<^verbatim>\<open>createBadRequestResponse(message)\<close>,
  \<^verbatim>\<open>createServerErrorResponse(error, type, message?)\<close>), kept as their arguments.
\<close>

datatype response =
    SuccessResponse jsval "string option" "Metadata option"
  | NotFoundResponse string
  | BadRequestResponse string
  | ServerErrorResponse string ErrorTypes "string option"

text \<open>\<^verbatim>\<open>ctx.status\<close> and \<^verbatim>\<open>ctx.body\<close> as the handler leaves them; \<open>None\<close> is never assigned.\<close>

record Ctx =
  ctx_status :: "nat option"
  ctx_body :: "response option"

text \<open>A handler returns, or rejects with the message of the error thrown.\<close>

datatype outcome = Returned Ctx | Threw string

text \<open>The handler returned and left a success response as the body.\<close>

definition successResponse :: "outcome \<Rightarrow> bool" where
  "successResponse out =
     (case out of
        Returned ctx \<Rightarrow>
          (case ctx_body ctx of Some (SuccessResponse dat msg md) \<Rightarrow> True | _ \<Rightarrow> False)
      | Threw ex \<Rightarrow> False)"

record GetChatsParams =
  gc_chatGuid :: "string option"
  gc_withSMS :: "bool option"
  gc_withParticipants :: "bool option"

text \<open>
  \<^verbatim>\<open>DBMessageParams\<close> as \<^verbatim>\<open>getMessages\<close> fills it. \<open>mp_before\<close> and \<open>mp_after\<close>
  hold the query strings of which the repository receives \<^verbatim>\<open>Number.parseInt(., 10)\<close>.
\<close>

record DBMessageParams =
  mp_chatGuid :: string
  mp_withAttachments :: bool
  mp_withHandle :: bool
  mp_withSMS :: bool
  mp_offset :: jsnum
  mp_limit :: jsnum
  mp_sort :: string
  mp_before :: "string option"
  mp_after :: "string option"

record ChatGetParams =
  cg_guid :: jsval
  cg_withSMS :: bool
  cg_withParticipants :: bool
  cg_withLastMessage :: bool
  cg_withArchived :: bool
  cg_offset :: jsnum
  cg_limit :: jsnum
  cg_sort :: "string option"

datatype ToggleAction = Add | Remove

text \<open>
  The functions the handlers call that are declared elsewhere, as parameters. \<open>'s\<close>
  is the stored state behind the server (configuration, message store, the chats
  of the messaging application). Lookups read it; \<open>setDisplayName\<close> and
  \<open>chatToggleParticipant\<close> (\<^verbatim>\<open>ChatInterface.setDisplayName\<close>,
  \<^verbatim>\<open>ChatInterface.toggleParticipant\<close>) may change it and either return the chat or
  throw (\<open>Inl\<close> the message). \<open>checkPrivateApiStatus\<close> gives \<open>Some\<close> message when
  it throws. \<open>parseNumber\<close> gives \<open>None\<close> for null or undefined and otherwise a
  number, which may be any number of the platform, NaN and the infinities too.
\<close>

record ('s, 'chat, 'msg) Env =
  parseNumber :: "jsval \<Rightarrow> jsnum option"
  getConfig :: "'s \<Rightarrow> string \<Rightarrow> jsval"
  checkPrivateApiStatus :: "'s \<Rightarrow> string option"
  getChats :: "'s \<Rightarrow> GetChatsParams \<Rightarrow> 'chat list option"
  repoGetMessages :: "'s \<Rightarrow> DBMessageParams \<Rightarrow> 'msg list option"
  getChatCount :: "'s \<Rightarrow> nat"
  chatGet :: "'s \<Rightarrow> ChatGetParams \<Rightarrow> jsval"
  setDisplayName :: "'chat \<Rightarrow> jsval \<Rightarrow> 's \<Rightarrow> (string + 'chat) \<times> 's"
  chatToggleParticipant :: "'chat \<Rightarrow> jsval \<Rightarrow> ToggleAction \<Rightarrow> 's \<Rightarrow> (string + 'chat) \<times> 's"
  getChatResponse :: "'chat \<Rightarrow> jsval"
  getMessageResponse :: "'msg \<Rightarrow> jsval"

text \<open>The calls a handler makes on the server and on \<^verbatim>\<open>ChatInterface\<close>, in order.\<close>

datatype 'chat call =
    CallCheckPrivateApiStatus
  | CallGetConfig string
  | CallGetChats GetChatsParams
  | CallGetMessages DBMessageParams
  | CallChatGet ChatGetParams
  | CallGetChatCount
  | CallSetDisplayName 'chat jsval
  | CallToggleParticipant 'chat jsval ToggleAction

text \<open>\<^verbatim>\<open>ctx.params.guid\<close>, \<^verbatim>\<open>ctx.request.query\<close> and \<^verbatim>\<open>ctx.request.body\<close>.\<close>

record Request =
  req_guid :: string
  req_query :: "string \<rightharpoonup> string"
  req_body :: "(string \<times> jsval) list"

text \<open>\<^verbatim>\<open>!chats || chats.length === 0\<close>\<close>

definition noChats :: "'chat list option \<Rightarrow> bool" where
  "noChats chats = (case chats of None \<Rightarrow> True | Some cs \<Rightarrow> length cs = 0)"

subsection \<open>The handlers\<close>




definition update ::
  "('s, 'chat, 'msg) Env \<Rightarrow> 's \<Rightarrow> Request \<Rightarrow> outcome \<times> 's \<times> 'chat call list" where
  "update env s req =
     (let body = req_body req;
          guid = req_guid req;
          displayName = js_prop body ''displayName'';
          enablePrivateApi = getConfig env s ''enable_private_api''
      in if \<not> truthy enablePrivateApi
         then (Returned \<lparr>ctx_status = Some 404,
                          ctx_body = Some (ServerErrorResponse ''Private API is not enabled!''
                                             IMESSAGE_ERROR None)\<rparr>,
               s, [CallGetConfig ''enable_private_api''])
         else
           let chatsParams = \<lparr>gc_chatGuid = Some guid, gc_withSMS = None,
                               gc_withParticipants = Some True\<rparr>;
               chats = getChats env s chatsParams
           in case chats of
                Some (chat # rest) \<Rightarrow>
                  (let (updated, errors, chat', s', made) =
                         (if truthy displayName \<and> js_length displayName \<noteq> JNum 0
                          then (case setDisplayName env chat displayName s of
                                  (Inr c, s1) \<Rightarrow>
                                    ([''displayName''], [], c, s1, [CallSetDisplayName chat displayName])
                                | (Inl ex, s1) \<Rightarrow>
                                    ([], [ex], chat, s1, [CallSetDisplayName chat displayName]))
                          else ([], [], chat, s, []));
                       calls = [CallGetConfig ''enable_private_api'', CallGetChats chatsParams] @ made
                   in if length errors > 0
                      then (Returned \<lparr>ctx_status = None,
                                       ctx_body = Some (ServerErrorResponse (js_join '', '' errors)
                                                          IMESSAGE_ERROR
                                                          (Some ''Chat update executed with errors!''))\<rparr>,
                            s', calls)
                      else if length updated = 0
                      then (Returned \<lparr>ctx_status = None,
                                       ctx_body = Some (SuccessResponse (getChatResponse env chat')
                                                          (Some ''Chat not updated! No update information provided!'')
                                                          None)\<rparr>,
                            s', calls)
                      else (Returned \<lparr>ctx_status = None,
                                       ctx_body = Some (SuccessResponse (getChatResponse env chat')
                                                          (Some (''Successfully updated the following fields: ''
                                                                 @ js_join '', '' updated))
                                                          None)\<rparr>,
                            s', calls))
              | _ \<Rightarrow>
                  (Returned \<lparr>ctx_status = Some 404,
                             ctx_body = Some (NotFoundResponse ''Chat does not exist!'')\<rparr>,
                   s, [CallGetConfig ''enable_private_api'', CallGetChats chatsParams]))"

definition toggleParticipant ::
  "('s, 'chat, 'msg) Env \<Rightarrow> 's \<Rightarrow> Request \<Rightarrow> ToggleAction \<Rightarrow> outcome \<times> 's \<times> 'chat call list" where
  "toggleParticipant env s req action =
     (let body = req_body req;
          guid = req_guid req;
          address = js_prop body ''address''
      in case checkPrivateApiStatus env s of
           Some ex \<Rightarrow> (Threw ex, s, [CallCheckPrivateApiStatus])
         | None \<Rightarrow>
             if \<not> truthy address \<or> js_length address = JNum 0
             then (Returned \<lparr>ctx_status = Some 404,
                              ctx_body = Some (NotFoundResponse ''Participant address not provided!'')\<rparr>,
                   s, [CallCheckPrivateApiStatus])
             else
               let chatsParams = \<lparr>gc_chatGuid = Some guid, gc_withSMS = None,
                                   gc_withParticipants = Some False\<rparr>;
                   chats = getChats env s chatsParams
               in case chats of
                    Some (chat # rest) \<Rightarrow>
                      (let calls = [CallCheckPrivateApiStatus, CallGetChats chatsParams,
                                    CallToggleParticipant chat address action]
                       in case chatToggleParticipant env chat address action s of
                            (Inl ex, s') \<Rightarrow> (Threw ex, s', calls)
                          | (Inr chat', s') \<Rightarrow>
                              (Returned \<lparr>ctx_status = None,
                                         ctx_body = Some (SuccessResponse (getChatResponse env chat')
                                                            (Some ''Successfully added participant!'')
                                                            None)\<rparr>,
                               s', calls))
                  | _ \<Rightarrow>
                      (Returned \<lparr>ctx_status = Some 404,
                                 ctx_body = Some (NotFoundResponse ''Chat does not exist!'')\<rparr>,
                       s, [CallCheckPrivateApiStatus, CallGetChats chatsParams]))"

definition addParticipant ::
  "('s, 'chat, 'msg) Env \<Rightarrow> 's \<Rightarrow> Request \<Rightarrow> outcome \<times> 's \<times> 'chat call list" where
  "addParticipant env s req = toggleParticipant env s req Add"

definition removeParticipant ::
  "('s, 'chat, 'msg) Env \<Rightarrow> 's \<Rightarrow> Request \<Rightarrow> outcome \<times> 's \<times> 'chat call list" where
  "removeParticipant env s req = toggleParticipant env s req Remove"


section \<open>Example inputs\<close>

text \<open>
  A registry with one pending transaction, created at time 100 under a timeout of
  15000, and a dispatcher in front of an empty registry whose generator counts up
  from 7.
\<close>

definition exampleTx :: Transaction where
  "exampleTx = \<lparr>tx_id = 7, tx_kind = OTHER, createdAt = 100, tx_state = Pending\<rparr>"

definition exampleRegistry :: Registry where
  "exampleRegistry =
     \<lparr>pending = [7 \<mapsto> exampleTx], completions = (\<lambda>i. []), idSource = (\<lambda>n. n + 8),
      idsDrawn = 0, timeoutAfter = 15000\<rparr>"

definition exampleRace :: "Attempt list" where
  "exampleRace =
     [TryTimeout 200 7, TryResolve 8 JNull, TryReject 7 (HelperReportedError ''busy''),
      TryResolve 7 (JStr ''link''), TryTimeout 20000 7]"

definition exampleDispatcher :: Dispatcher where
  "exampleDispatcher =
     \<lparr>transportReady = True,
      registry = \<lparr>pending = Map.empty, completions = (\<lambda>i. []), idSource = (\<lambda>n. n + 7),
                  idsDrawn = 0, timeoutAfter = 15000\<rparr>,
      sent = [], clock = 100\<rparr>"

text \<open>
  A server with one chat, a chat being its guid and its display name, the private
  API enabled and connected.
\<close>

definition exampleEnv :: "((string \<times> string) list, string \<times> string, string) Env" where
  "exampleEnv =
     \<lparr>parseNumber =
        (\<lambda>v. case v of
                JNum n \<Rightarrow> Some (Num n)
              | JStr x \<Rightarrow>
                  (if x = ''-1'' then Some (Num (- 1))
                   else if x = ''-3'' then Some (Num (- 3))
                   else if x = [] then None
                   else Some NaN)
              | _ \<Rightarrow> None),
      getConfig = (\<lambda>s k. JBool True),
      checkPrivateApiStatus = (\<lambda>s. None),
      getChats = (\<lambda>s p. Some (filter (\<lambda>c. gc_chatGuid p = Some (fst c)) s)),
      repoGetMessages = (\<lambda>s opts. Some []),
      getChatCount = length,
      chatGet = (\<lambda>s p. JArr []),
      setDisplayName =
        (\<lambda>c v s. case v of
                    JStr n \<Rightarrow> (Inr (fst c, n), map (\<lambda>x. if fst x = fst c then (fst x, n) else x) s)
                  | _ \<Rightarrow> (Inl ''display name is not a string'', s)),
      chatToggleParticipant = (\<lambda>c a act s. (Inr c, s)),
      getChatResponse = (\<lambda>c. JObj [(''guid'', JStr (fst c)), (''displayName'', JStr (snd c))]),
      getMessageResponse = JStr\<rparr>"

definition exampleStore :: "(string \<times> string) list" where
  "exampleStore = [(''chat1'', ''Family'')]"

definition exampleRequest :: "(string \<rightharpoonup> string) \<Rightarrow> (string \<times> jsval) list \<Rightarrow> Request" where
  "exampleRequest q b = \<lparr>req_guid = ''chat1'', req_query = q, req_body = b\<rparr>"

section \<open>Facts about the registry\<close>

lemma attempt_noop: "\<not> fst (attempt a reg) \<Longrightarrow> snd (attempt a reg) = reg"
  by (cases a) (auto simp: resolve_def reject_def timeoutTx_def split: option.splits if_splits)

lemma attempt_other:
  "target a \<noteq> i \<Longrightarrow>
     pending (snd (attempt a reg)) i = pending reg i
     \<and> completions (snd (attempt a reg)) i = completions reg i"
  by (cases a) (auto simp: resolve_def reject_def timeoutTx_def finish_def split: option.splits)

lemma attempt_timeoutAfter: "timeoutAfter (snd (attempt a reg)) = timeoutAfter reg"
  by (cases a) (auto simp: resolve_def reject_def timeoutTx_def finish_def split: option.splits)

lemma attempt_absent: "pending reg (target a) = None \<Longrightarrow> attempt a reg = (False, reg)"
  by (cases a) (auto simp: resolve_def reject_def timeoutTx_def)

lemma attempt_pending:
  "pending reg (target a) = Some t \<Longrightarrow> tx_state t = Pending \<Longrightarrow>
     attempt a reg =
       (case delivery (timeoutAfter reg) t a of
          None \<Rightarrow> (False, reg)
        | Some (st, res) \<Rightarrow> (True, finish (target a) st res reg))"
  by (cases a) (auto simp: resolve_def reject_def timeoutTx_def)

lemma attempt_won:
  "fst (attempt a reg) \<Longrightarrow>
     pending (snd (attempt a reg)) (target a) = None
     \<and> length (completions (snd (attempt a reg)) (target a)) =
         Suc (length (completions reg (target a)))"
  by (cases a) (auto simp: resolve_def reject_def timeoutTx_def finish_def split: option.splits if_splits)

lemma winners_Cons:
  "winners i (a # as) reg =
     (if fst (attempt a reg) \<and> target a = i then [a] else []) @ winners i as (snd (attempt a reg))"
  by (simp add: winners_def split_beta)

text \<open>Once the entry is gone from the table, no attempt on it wins or writes the slot.\<close>

lemma absent_stays:
  "pending reg i = None \<Longrightarrow>
     winners i as reg = []
     \<and> pending (snd (attempts as reg)) i = None
     \<and> completions (snd (attempts as reg)) i = completions reg i"
proof (induction as arbitrary: reg)
  case Nil
  then show ?case by (simp add: winners_def)
next
  case (Cons a as)
  show ?case
  proof (cases "target a = i")
    case True
    with Cons.prems have "attempt a reg = (False, reg)" by (simp add: attempt_absent)
    with Cons show ?thesis by (simp add: winners_Cons split_beta)
  next
    case False
    then have "pending (snd (attempt a reg)) i = None"
      and "completions (snd (attempt a reg)) i = completions reg i"
      using Cons.prems by (simp_all add: attempt_other)
    with Cons.IH [of "snd (attempt a reg)"] False show ?thesis
      by (simp add: winners_Cons split_beta)
  qed
qed

text \<open>Every win writes the slot once, and there is at most one.\<close>

lemma winners_count:
  "length (winners i as reg) \<le> 1
   \<and> length (completions (snd (attempts as reg)) i) =
       length (completions reg i) + length (winners i as reg)"
proof (induction as arbitrary: reg)
  case Nil
  show ?case by (simp add: winners_def)
next
  case (Cons a as)
  let ?reg' = "snd (attempt a reg)"
  show ?case
  proof (cases "target a = i")
    case False
    with Cons.IH [of ?reg'] show ?thesis
      by (simp add: winners_Cons split_beta attempt_other)
  next
    case True
    show ?thesis
    proof (cases "fst (attempt a reg)")
      case False
      then have "?reg' = reg" by (rule attempt_noop)
      with Cons.IH [of reg] False show ?thesis
        by (simp add: winners_Cons split_beta)
    next
      case won: True
      from attempt_won [OF won] True
      have gone: "pending ?reg' i = None"
        and once: "length (completions ?reg' i) = Suc (length (completions reg i))"
        by simp_all
      from absent_stays [OF gone, of as] won True once show ?thesis
        by (simp add: winners_Cons split_beta)
    qed
  qed
qed

text \<open>
  A pending transaction ends in the first terminal state the attempts bring, and
  the attempt that brings it is the only winner.
\<close>

lemma pending_wins:
  "pending reg i = Some t \<Longrightarrow> tx_state t = Pending \<Longrightarrow>
     completed i (snd (attempts as reg)) =
       (case completions reg i of [] \<Rightarrow> firstTerminal (timeoutAfter reg) i t as | r # rs \<Rightarrow> Some r)
     \<and> length (winners i as reg) = (if firstTerminal (timeoutAfter reg) i t as = None then 0 else 1)"
proof (induction as arbitrary: reg)
  case Nil
  then show ?case by (simp add: winners_def completed_def split: list.splits)
next
  case (Cons a as)
  let ?reg' = "snd (attempt a reg)"
  show ?case
  proof (cases "target a = i")
    case False
    then have "pending ?reg' i = Some t" and "completions ?reg' i = completions reg i"
      using Cons.prems by (simp_all add: attempt_other)
    with Cons.IH [of ?reg'] Cons.prems False show ?thesis
      by (simp add: winners_Cons split_beta attempt_timeoutAfter cong: list.case_cong)
  next
    case True
    with Cons.prems have step:
      "attempt a reg =
         (case delivery (timeoutAfter reg) t a of
            None \<Rightarrow> (False, reg)
          | Some (st, res) \<Rightarrow> (True, finish i st res reg))"
      using attempt_pending [of reg a t] by (simp split: option.splits)
    show ?thesis
    proof (cases "delivery (timeoutAfter reg) t a")
      case None
      with step have "attempt a reg = (False, reg)" by simp
      with Cons.IH [of reg] Cons.prems None True show ?thesis
        by (simp add: winners_Cons split_beta cong: list.case_cong)
    next
      case (Some r)
      obtain st res where r: "r = (st, res)" by (cases r)
      with step Some have won: "attempt a reg = (True, finish i st res reg)" by simp
      have gone: "pending (finish i st res reg) i = None" by (simp add: finish_def)
      from absent_stays [OF gone, of as] won Some r True Cons.prems show ?thesis
        by (simp add: winners_Cons split_beta completed_def finish_def split: list.splits)
    qed
  qed
qed

lemma firstTerminal_some:
  "(firstTerminal limit i t as \<noteq> None) =
     (\<exists>a\<in>set as. target a = i \<and> delivery limit t a \<noteq> None)"
  by (induction as) auto


section \<open>Properties of the registry and the dispatcher\<close>

text \<open>
  C1. At most one transition out of \<open>Pending\<close> ever succeeds for a transaction:
  in any sequence of resolve, reject and timeout attempts (any interleaving of the
  racing attempts, also with attempts on other identifiers), at most one attempt
  on the identifier \<open>i\<close> wins, the completion slot of \<open>i\<close> is written once per
  win and so at most once, every attempt that does not win leaves the registry as
  it was, and when the transaction is pending and some attempt on it can deliver,
  exactly one wins.
\<close>

theorem exactly_once_resolution:
  "length (winners i as reg) \<le> 1
   \<and> length (completions (snd (attempts as reg)) i) =
       length (completions reg i) + length (winners i as reg)
   \<and> (\<not> fst (attempt a r) \<longrightarrow> snd (attempt a r) = r)
   \<and> (pending reg i = Some t \<and> tx_state t = Pending
        \<and> (\<exists>b\<in>set as. target b = i \<and> delivery (timeoutAfter reg) t b \<noteq> None)
       \<longrightarrow> length (winners i as reg) = 1)"
proof -
  have "pending reg i = Some t \<Longrightarrow> tx_state t = Pending \<Longrightarrow>
          \<exists>b\<in>set as. target b = i \<and> delivery (timeoutAfter reg) t b \<noteq> None \<Longrightarrow>
          length (winners i as reg) = 1"
  proof -
    assume p: "pending reg i = Some t" "tx_state t = Pending"
      and "\<exists>b\<in>set as. target b = i \<and> delivery (timeoutAfter reg) t b \<noteq> None"
    then have "firstTerminal (timeoutAfter reg) i t as \<noteq> None"
      by (simp only: firstTerminal_some)
    with pending_wins [OF p, of as] show ?thesis by simp
  qed
  with winners_count [of i as reg] attempt_noop [of a r] show ?thesis by blast
qed

theorem exactly_once_resolution_witness:
  "pending exampleRegistry 7 = Some exampleTx
   \<and> tx_state exampleTx = Pending
   \<and> TryReject 7 (HelperReportedError ''busy'') \<in> set exampleRace
   \<and> length (winners 7 exampleRace exampleRegistry) = 1
   \<and> length (completions (snd (attempts exampleRace exampleRegistry)) 7) = 1
   \<and> fst (attempt (TryTimeout 200 7) exampleRegistry) = False
   \<and> snd (attempt (TryTimeout 200 7) exampleRegistry) = exampleRegistry"
proof -
  have p: "pending exampleRegistry 7 = Some exampleTx" and s: "tx_state exampleTx = Pending"
    by (simp_all add: exampleRegistry_def exampleTx_def)
  have m: "TryReject 7 (HelperReportedError ''busy'') \<in> set exampleRace"
    by (simp add: exampleRace_def)
  then have e: "\<exists>b\<in>set exampleRace.
      target b = 7 \<and> delivery (timeoutAfter exampleRegistry) exampleTx b \<noteq> None"
    by (rule bexI [rotated]) simp
  have l: "\<not> fst (attempt (TryTimeout 200 7) exampleRegistry)"
    by (simp add: timeoutTx_def exampleRegistry_def exampleTx_def)
  have c: "completions exampleRegistry 7 = []"
    by (simp add: exampleRegistry_def)
  from exactly_once_resolution
    [of 7 exampleRace exampleRegistry "TryTimeout 200 7" exampleRegistry exampleTx]
    p s m e l c
  show ?thesis by simp
qed


text \<open>
  What a send with a transaction request does in a ready dispatcher whose next
  identifier is not in the table.
\<close>

lemma sendApiMessage_request:
  assumes "transportReady d"
    and "pending (registry d) (idSource (registry d) (idsDrawn (registry d))) = None"
  shows "sendApiMessage action args (Some (TransactionPromise kind)) d =
           (let i = idSource (registry d) (idsDrawn (registry d));
                t = \<lparr>tx_id = i, tx_kind = kind, createdAt = clock d, tx_state = Pending\<rparr>
            in (Inr (Handle i),
                d\<lparr>registry := (registry d)\<lparr>pending := (pending (registry d))(i \<mapsto> t),
                                            completions := (completions (registry d))(i := []),
                                            idsDrawn := Suc (idsDrawn (registry d))\<rparr>,
                  sent := sent d @
                    [\<lparr>msg_action = action, msg_args = args, msg_transactionId = Some i\<rparr>]\<rparr>))"
  using assms by (simp add: sendApiMessage_def create_def Let_def)

text \<open>
  C3. \<open>generateLink\<close> requests a transaction: in a ready dispatcher (with an
  identifier that does not collide) the registry gets a pending transaction of
  kind \<open>OTHER\<close>, the message sent carries its id, and the handle returned is on
  that id. Whatever attempts follow, awaiting the handle gives the first terminal
  state that a resolve, a reject or a timeout brings to that id, and nothing
  before one does.
\<close>

theorem generateLink_transaction:
  assumes "transportReady d"
    and "i = idSource (registry d) (idsDrawn (registry d))"
    and "pending (registry d) i = None"
    and "t = \<lparr>tx_id = i, tx_kind = OTHER, createdAt = clock d, tx_state = Pending\<rparr>"
    and "generateLink sendApiMessage uuid d = (r, d')"
  shows "r = Inr (Handle i)
     \<and> pending (registry d') = (pending (registry d))(i \<mapsto> t)
     \<and> sent d' = sent d @
         [\<lparr>msg_action = ''generate-link'',
           msg_args = [(''callUUID'', case uuid of None \<Rightarrow> JNull | Some u \<Rightarrow> JStr u)],
           msg_transactionId = Some i\<rparr>]
     \<and> completed i (registry d') = None
     \<and> completed i (snd (attempts as (registry d'))) =
         firstTerminal (timeoutAfter (registry d)) i t as"
proof -
  let ?args = "[(''callUUID'', case uuid of None \<Rightarrow> JNull | Some u \<Rightarrow> JStr u)]"
  have call: "generateLink sendApiMessage uuid d =
      sendApiMessage ''generate-link'' ?args (Some (TransactionPromise OTHER)) d"
    by (cases uuid) (simp_all add: generateLink_def nullish_def)
  from assms(1) assms(3) [unfolded assms(2)]
  have "sendApiMessage ''generate-link'' ?args (Some (TransactionPromise OTHER)) d =
      (Inr (Handle i),
       d\<lparr>registry := (registry d)\<lparr>pending := (pending (registry d))(i \<mapsto> t),
                                   completions := (completions (registry d))(i := []),
                                   idsDrawn := Suc (idsDrawn (registry d))\<rparr>,
         sent := sent d @
           [\<lparr>msg_action = ''generate-link'', msg_args = ?args, msg_transactionId = Some i\<rparr>]\<rparr>)"
    unfolding assms(2) assms(4) by (simp add: sendApiMessage_request Let_def)
  with call assms(5) have r: "r = Inr (Handle i)"
    and d': "d' = d\<lparr>registry := (registry d)\<lparr>pending := (pending (registry d))(i \<mapsto> t),
                                   completions := (completions (registry d))(i := []),
                                   idsDrawn := Suc (idsDrawn (registry d))\<rparr>,
         sent := sent d @
           [\<lparr>msg_action = ''generate-link'', msg_args = ?args, msg_transactionId = Some i\<rparr>]\<rparr>"
    by simp_all
  have p: "pending (registry d') i = Some t" and st: "tx_state t = Pending"
    and c: "completions (registry d') i = []"
    and lim: "timeoutAfter (registry d') = timeoutAfter (registry d)"
    by (simp_all add: d' assms(4))
  from pending_wins [OF p st, of as] c lim
  have "completed i (snd (attempts as (registry d'))) =
      firstTerminal (timeoutAfter (registry d)) i t as"
    by simp
  moreover have "completed i (registry d') = None"
    using c by (simp add: completed_def)
  ultimately show ?thesis using r by (simp add: d')
qed

theorem generateLink_transaction_witness:
  "fst (generateLink sendApiMessage None exampleDispatcher) = Inr (Handle 7)
   \<and> pending (registry (snd (generateLink sendApiMessage None exampleDispatcher))) 7 =
       Some \<lparr>tx_id = 7, tx_kind = OTHER, createdAt = 100, tx_state = Pending\<rparr>
   \<and> sent (snd (generateLink sendApiMessage None exampleDispatcher)) =
       [\<lparr>msg_action = ''generate-link'', msg_args = [(''callUUID'', JNull)],
         msg_transactionId = Some 7\<rparr>]
   \<and> completed 7 (snd (attempts exampleRace
        (registry (snd (generateLink sendApiMessage None exampleDispatcher))))) =
       Some (Rejected, Failure (HelperReportedError ''busy''))"
proof -
  have a1: "transportReady exampleDispatcher"
    and a2: "7 = idSource (registry exampleDispatcher) (idsDrawn (registry exampleDispatcher))"
    and a3: "pending (registry exampleDispatcher) 7 = None"
    and a4: "clock exampleDispatcher = 100"
    and a5: "timeoutAfter (registry exampleDispatcher) = 15000"
    and a6: "sent exampleDispatcher = []"
    and a7: "pending (registry exampleDispatcher) = Map.empty"
    by (simp_all add: exampleDispatcher_def)
  have a8: "\<lparr>tx_id = 7, tx_kind = OTHER, createdAt = 100, tx_state = Pending\<rparr> =
      \<lparr>tx_id = 7, tx_kind = OTHER, createdAt = clock exampleDispatcher, tx_state = Pending\<rparr>"
    by (simp add: a4)
  have a9: "generateLink sendApiMessage None exampleDispatcher =
      (fst (generateLink sendApiMessage None exampleDispatcher),
       snd (generateLink sendApiMessage None exampleDispatcher))"
    by simp
  from generateLink_transaction [OF a1 a2 a3 a8 a9, of exampleRace] a5 a6 a7
  show ?thesis by (simp add: exampleRace_def)
qed

text \<open>
  C4. A fire-and-forget Domain Action (\<open>answerCall\<close>, \<open>leaveCall\<close>,
  \<open>admitParticipant\<close>: a send without a transaction request) leaves the registry,
  and with it the table of pending transactions, as it was, and returns at once:
  an acknowledgement (or the transport's refusal), never a handle to await. What
  it returns is the same whatever the helper has answered in the meantime.
\<close>

theorem fire_and_forget_no_registration:
  "registry (snd (answerCall sendApiMessage uuid d)) = registry d
   \<and> registry (snd (leaveCall sendApiMessage uuid d)) = registry d
   \<and> registry (snd (admitParticipant sendApiMessage c h d)) = registry d
   \<and> fst (answerCall sendApiMessage uuid d) =
       (if transportReady d then Inr Acknowledged else Inl TransportUnavailable)
   \<and> fst (leaveCall sendApiMessage uuid d) =
       (if transportReady d then Inr Acknowledged else Inl TransportUnavailable)
   \<and> fst (admitParticipant sendApiMessage c h d) =
       (if transportReady d then Inr Acknowledged else Inl TransportUnavailable)
   \<and> fst (answerCall sendApiMessage uuid (d\<lparr>registry := snd (attempts as (registry d))\<rparr>)) =
       fst (answerCall sendApiMessage uuid d)
   \<and> fst (leaveCall sendApiMessage uuid (d\<lparr>registry := snd (attempts as (registry d))\<rparr>)) =
       fst (leaveCall sendApiMessage uuid d)
   \<and> fst (admitParticipant sendApiMessage c h (d\<lparr>registry := snd (attempts as (registry d))\<rparr>)) =
       fst (admitParticipant sendApiMessage c h d)"
  by (simp add: answerCall_def leaveCall_def admitParticipant_def sendApiMessage_def)

theorem fire_and_forget_no_registration_witness:
  "pending (registry (snd (answerCall sendApiMessage ''call-1'' exampleDispatcher))) = Map.empty
   \<and> fst (answerCall sendApiMessage ''call-1'' exampleDispatcher) = Inr Acknowledged
   \<and> fst (admitParticipant sendApiMessage ''conv-1'' ''handle-1'' exampleDispatcher) =
       Inr Acknowledged"
  using fire_and_forget_no_registration
    [of "''call-1''" exampleDispatcher "''conv-1''" "''handle-1''" "[]"]
  by (simp add: exampleDispatcher_def)

text \<open>
  C5. When the transport is not ready, \<open>sendApiMessage\<close> fails at once with
  \<open>TransportUnavailable\<close> and leaves the dispatcher as it was: no transaction is
  registered, nothing is sent and what is returned is the error, not a handle to
  await. In the HTTP caller \<open>toggleParticipant\<close> the readiness check
  \<open>checkPrivateApiStatus\<close> is always the first call made, and when it throws the
  handler rejects with that error before any validation, lookup or dispatch.
\<close>

theorem transport_unavailable_short_circuit:
  "(\<not> transportReady d \<longrightarrow>
      sendApiMessage action args request d = (Inl TransportUnavailable, d))
   \<and> (checkPrivateApiStatus env s = Some ex \<longrightarrow>
        toggleParticipant env s req act = (Threw ex, s, [CallCheckPrivateApiStatus]))
   \<and> take 1 (snd (snd (toggleParticipant env s req act))) = [CallCheckPrivateApiStatus]"
  by (auto simp: sendApiMessage_def toggleParticipant_def Let_def
      split: option.splits list.splits prod.splits sum.splits)

theorem transport_unavailable_short_circuit_witness:
  "fst (generateLink sendApiMessage None (exampleDispatcher\<lparr>transportReady := False\<rparr>)) =
     Inl TransportUnavailable
   \<and> registry (snd (generateLink sendApiMessage None (exampleDispatcher\<lparr>transportReady := False\<rparr>))) =
       registry exampleDispatcher
   \<and> sent (snd (generateLink sendApiMessage None (exampleDispatcher\<lparr>transportReady := False\<rparr>))) = []
   \<and> toggleParticipant (exampleEnv\<lparr>checkPrivateApiStatus := (\<lambda>s. Some ''not connected'')\<rparr>)
        exampleStore (exampleRequest Map.empty []) Add =
       (Threw ''not connected'', exampleStore, [CallCheckPrivateApiStatus])"
proof -
  let ?d = "exampleDispatcher\<lparr>transportReady := False\<rparr>"
  let ?env = "exampleEnv\<lparr>checkPrivateApiStatus := (\<lambda>s. Some ''not connected'')\<rparr>"
  have n: "\<not> transportReady ?d" by simp
  have c: "checkPrivateApiStatus ?env exampleStore = Some ''not connected''" by simp
  have g: "generateLink sendApiMessage None ?d =
      sendApiMessage ''generate-link'' [(''callUUID'', JNull)] (Some (TransactionPromise OTHER)) ?d"
    by (simp add: generateLink_def nullish_def)
  from transport_unavailable_short_circuit
    [of ?d "''generate-link''" "[(''callUUID'', JNull)]" "Some (TransactionPromise OTHER)"
        ?env exampleStore "''not connected''" "exampleRequest Map.empty []" Add]
    n c g
  show ?thesis by (simp add: exampleDispatcher_def)
qed


section \<open>Properties of the Domain Actions\<close>

text \<open>
  C2. Each Domain Action hands the dispatcher the action name and argument shape of
  its operation: \<open>answerCall uuid\<close> sends ``answer-call'' with \<open>{callUUID: uuid}\<close>
  and no transaction request, \<open>leaveCall uuid\<close> sends ``leave-call'' with
  \<open>{callUUID: uuid}\<close> and none, \<open>admitParticipant c h\<close> sends
  ``admit-pending-member'' with \<open>{conversationUUID: c, handleUUID: h}\<close> and none,
  and \<open>generateLink\<close> is the only one that requests a transaction.
\<close>

theorem domain_actions_shape:
  "answerCall send uuid = send ''answer-call'' [(''callUUID'', JStr uuid)] None
   \<and> leaveCall send uuid = send ''leave-call'' [(''callUUID'', JStr uuid)] None
   \<and> admitParticipant send c h =
       send ''admit-pending-member'' [(''conversationUUID'', JStr c), (''handleUUID'', JStr h)] None
   \<and> generateLink send (Some uuid) =
       send ''generate-link'' [(''callUUID'', JStr uuid)] (Some (TransactionPromise OTHER))
   \<and> generateLink send None =
       send ''generate-link'' [(''callUUID'', JNull)] (Some (TransactionPromise OTHER))
   \<and> \<not> requestsTransaction (last (snd (answerCall recordCall uuid calls)))
   \<and> \<not> requestsTransaction (last (snd (leaveCall recordCall uuid calls)))
   \<and> \<not> requestsTransaction (last (snd (admitParticipant recordCall c h calls)))
   \<and> requestsTransaction (last (snd (generateLink recordCall link calls)))"
  by (simp add: answerCall_def leaveCall_def admitParticipant_def generateLink_def
      nullish_def recordCall_def requestsTransaction_def)

theorem domain_actions_shape_witness:
  "snd (answerCall recordCall ''c1'' []) = [(''answer-call'', [(''callUUID'', JStr ''c1'')], None)]
   \<and> snd (generateLink recordCall None []) =
       [(''generate-link'', [(''callUUID'', JNull)], Some (TransactionPromise OTHER))]"
  using domain_actions_shape [of recordCall "''c1''" "''''" "''''" "[]" None]
  by (simp add: recordCall_def)

text \<open>
  C7. A Domain Action is a stateless translation: the call it hands to the
  dispatcher is fixed by its arguments alone, the same in every state the
  dispatcher may be in, and the only change of state is the dispatcher's own.
\<close>

theorem domain_actions_stateless:
  "(\<exists>call. \<forall>calls. snd (answerCall recordCall uuid calls) = calls @ [call])
   \<and> (\<exists>call. \<forall>calls. snd (leaveCall recordCall uuid calls) = calls @ [call])
   \<and> (\<exists>call. \<forall>calls. snd (generateLink recordCall link calls) = calls @ [call])
   \<and> (\<exists>call. \<forall>calls. snd (admitParticipant recordCall c h calls) = calls @ [call])
   \<and> last (snd (answerCall recordCall uuid calls1)) = last (snd (answerCall recordCall uuid calls2))
   \<and> last (snd (leaveCall recordCall uuid calls1)) = last (snd (leaveCall recordCall uuid calls2))
   \<and> last (snd (generateLink recordCall link calls1)) =
       last (snd (generateLink recordCall link calls2))
   \<and> last (snd (admitParticipant recordCall c h calls1)) =
       last (snd (admitParticipant recordCall c h calls2))"
  by (simp add: answerCall_def leaveCall_def admitParticipant_def generateLink_def recordCall_def)

theorem domain_actions_stateless_witness:
  "last (snd (admitParticipant recordCall ''conv'' ''hdl'' [])) =
     last (snd (admitParticipant recordCall ''conv'' ''hdl''
       [(''leave-call'', [(''callUUID'', JStr ''c1'')], None)]))"
  using domain_actions_stateless
    [of "''c1''" None "''conv''" "''hdl''" "[]" "[(''leave-call'', [(''callUUID'', JStr ''c1'')], None)]"]
  by simp


section \<open>Properties of the HTTP callers\<close>

text \<open>
  C6. Validation is the caller's: \<open>admitParticipant\<close> hands any two strings, the
  empty ones too, to the dispatcher as they are, while \<open>toggleParticipant\<close> never
  reaches the dispatch with a missing or empty address and, once the readiness
  check has passed, answers 404 ``Participant address not provided!'' after that
  one call.
\<close>

theorem validation_in_caller_only:
  "admitParticipant send c h =
     send ''admit-pending-member'' [(''conversationUUID'', JStr c), (''handleUUID'', JStr h)] None
   \<and> snd (admitParticipant recordCall c h calls) =
       calls @ [(''admit-pending-member'',
                 [(''conversationUUID'', JStr c), (''handleUUID'', JStr h)], None)]
   \<and> (js_prop (req_body req) ''address'' \<in> {JUndefined, JNull, JStr []} \<longrightarrow>
        CallToggleParticipant chat a act' \<notin> set (snd (snd (toggleParticipant env s req act)))
        \<and> (checkPrivateApiStatus env s = None \<longrightarrow>
             toggleParticipant env s req act =
               (Returned \<lparr>ctx_status = Some 404,
                          ctx_body = Some (NotFoundResponse ''Participant address not provided!'')\<rparr>,
                s, [CallCheckPrivateApiStatus])))"
  by (auto simp: admitParticipant_def recordCall_def toggleParticipant_def split: option.splits)

theorem validation_in_caller_only_witness:
  "snd (admitParticipant recordCall [] [] []) =
     [(''admit-pending-member'', [(''conversationUUID'', JStr []), (''handleUUID'', JStr [])], None)]
   \<and> toggleParticipant exampleEnv exampleStore (exampleRequest Map.empty [(''address'', JStr [])]) Add =
       (Returned \<lparr>ctx_status = Some 404,
                  ctx_body = Some (NotFoundResponse ''Participant address not provided!'')\<rparr>,
        exampleStore, [CallCheckPrivateApiStatus])"
proof -
  have a: "js_prop (req_body (exampleRequest Map.empty [(''address'', JStr [])])) ''address''
      \<in> {JUndefined, JNull, JStr []}"
    by (simp add: exampleRequest_def js_prop_def)
  have k: "checkPrivateApiStatus exampleEnv exampleStore = None"
    by (simp add: exampleEnv_def)
  from validation_in_caller_only
    [of recordCall "[]" "[]" "[]" "exampleRequest Map.empty [(''address'', JStr [])]"
        "(''chat1'', ''Family'')" JNull Add exampleEnv exampleStore Add]
    a k
  show ?thesis by auto
qed






text \<open>
  C9. A \<open>toggleParticipant\<close> request that succeeds answers with the message
  ``Successfully added participant!'' whatever the action: when the readiness
  check passes, the address is there, the chat exists and the toggle returns, that
  is the message for \<open>Add\<close> and for \<open>Remove\<close> alike, and no success response of
  the handler carries another. \<open>removeParticipant\<close> is the handler with \<open>Remove\<close>.
\<close>

theorem toggle_success_message_fixed:
  "removeParticipant env s req = toggleParticipant env s req Remove
   \<and> (fst (toggleParticipant env s req act) = Returned ctx
        \<and> ctx_body ctx = Some (SuccessResponse dat msg md)
       \<longrightarrow> msg = Some ''Successfully added participant!'')
   \<and> (checkPrivateApiStatus env s = None
        \<and> truthy (js_prop (req_body req) ''address'')
        \<and> js_length (js_prop (req_body req) ''address'') \<noteq> JNum 0
        \<and> getChats env s \<lparr>gc_chatGuid = Some (req_guid req), gc_withSMS = None,
                          gc_withParticipants = Some False\<rparr> = Some (chat # rest)
        \<and> chatToggleParticipant env chat (js_prop (req_body req) ''address'') act s = (Inr chat', s')
       \<longrightarrow> fst (toggleParticipant env s req act) =
             Returned \<lparr>ctx_status = None,
                       ctx_body = Some (SuccessResponse (getChatResponse env chat')
                                          (Some ''Successfully added participant!'') None)\<rparr>)"
  by (auto simp: removeParticipant_def toggleParticipant_def Let_def
      split: option.splits list.splits prod.splits sum.splits if_splits)

theorem toggle_success_message_fixed_witness:
  "fst (removeParticipant exampleEnv exampleStore
          (exampleRequest Map.empty [(''address'', JStr ''a@b.c'')])) =
     Returned \<lparr>ctx_status = None,
               ctx_body = Some (SuccessResponse
                                  (JObj [(''guid'', JStr ''chat1''), (''displayName'', JStr ''Family'')])
                                  (Some ''Successfully added participant!'') None)\<rparr>"
proof -
  let ?req = "exampleRequest Map.empty [(''address'', JStr ''a@b.c'')]"
  have a: "js_prop (req_body ?req) ''address'' = JStr ''a@b.c''"
    by (simp add: exampleRequest_def js_prop_def)
  have k: "checkPrivateApiStatus exampleEnv exampleStore = None"
    by (simp add: exampleEnv_def)
  have c: "getChats exampleEnv exampleStore
      \<lparr>gc_chatGuid = Some (req_guid ?req), gc_withSMS = None, gc_withParticipants = Some False\<rparr> =
      Some ((''chat1'', ''Family'') # [])"
    by (simp add: exampleEnv_def exampleStore_def exampleRequest_def)
  have t: "chatToggleParticipant exampleEnv (''chat1'', ''Family'')
      (js_prop (req_body ?req) ''address'') Remove exampleStore =
      (Inr (''chat1'', ''Family''), exampleStore)"
    by (simp add: exampleEnv_def)
  have r: "getChatResponse exampleEnv (''chat1'', ''Family'') =
      JObj [(''guid'', JStr ''chat1''), (''displayName'', JStr ''Family'')]"
    by (simp add: exampleEnv_def)
  from toggle_success_message_fixed
    [of exampleEnv exampleStore ?req Remove "\<lparr>ctx_status = None, ctx_body = None\<rparr>"
        JNull None None "(''chat1'', ''Family'')" "[]" "(''chat1'', ''Family'')" exampleStore]
    a k c t r
  show ?thesis by simp
qed

text \<open>
  C10, as the claim states it, fails: an update request without a display name is
  answered 404 ``Private API is not enabled!'', not with a success response, when
  the private API is switched off.
\<close>

theorem update_without_name_counterexample:
  "js_prop (req_body (exampleRequest Map.empty [])) ''displayName'' = JUndefined
   \<and> fst (update (exampleEnv\<lparr>getConfig := (\<lambda>s k. JBool False)\<rparr>) exampleStore
            (exampleRequest Map.empty [])) =
       Returned \<lparr>ctx_status = Some 404,
                 ctx_body = Some (ServerErrorResponse ''Private API is not enabled!''
                                    IMESSAGE_ERROR None)\<rparr>
   \<and> \<not> successResponse (fst (update (exampleEnv\<lparr>getConfig := (\<lambda>s k. JBool False)\<rparr>)
                                 exampleStore (exampleRequest Map.empty [])))"
  by (simp add: update_def exampleRequest_def js_prop_def successResponse_def)

text \<open>
  C10, amended. An update request whose body has no display name, or an empty one,
  never calls \<open>setDisplayName\<close> and leaves the stored state as it was. Its
  response is the 404 ``Private API is not enabled!'' when the private API is not
  enabled; the 404 ``Chat does not exist!'' when it is enabled and the chat is not
  found; and when it is enabled and the chat exists, a success response that
  carries that chat, unmodified, with the message ``Chat not updated! No update
  information provided!''.
\<close>

theorem update_without_name_unchanged:
  "js_prop (req_body req) ''displayName'' \<in> {JUndefined, JNull, JStr []} \<longrightarrow>
     CallSetDisplayName c v \<notin> set (snd (snd (update env s req)))
     \<and> fst (snd (update env s req)) = s
     \<and> (\<not> truthy (getConfig env s ''enable_private_api'')
         \<longrightarrow> fst (update env s req) =
               Returned \<lparr>ctx_status = Some 404,
                         ctx_body = Some (ServerErrorResponse ''Private API is not enabled!''
                                            IMESSAGE_ERROR None)\<rparr>)
     \<and> (truthy (getConfig env s ''enable_private_api'')
          \<and> noChats (getChats env s \<lparr>gc_chatGuid = Some (req_guid req), gc_withSMS = None,
                                     gc_withParticipants = Some True\<rparr>)
         \<longrightarrow> fst (update env s req) =
               Returned \<lparr>ctx_status = Some 404,
                         ctx_body = Some (NotFoundResponse ''Chat does not exist!'')\<rparr>)
     \<and> (truthy (getConfig env s ''enable_private_api'')
          \<and> getChats env s \<lparr>gc_chatGuid = Some (req_guid req), gc_withSMS = None,
                            gc_withParticipants = Some True\<rparr> = Some (chat # rest)
         \<longrightarrow> fst (update env s req) =
               Returned \<lparr>ctx_status = None,
                         ctx_body = Some (SuccessResponse (getChatResponse env chat)
                                            (Some ''Chat not updated! No update information provided!'')
                                            None)\<rparr>)"
  by (auto simp: update_def noChats_def Let_def split: option.splits list.splits)

theorem update_without_name_unchanged_witness:
  "update exampleEnv exampleStore (exampleRequest Map.empty [(''displayName'', JStr [])]) =
     (Returned \<lparr>ctx_status = None,
                ctx_body = Some (SuccessResponse
                                   (JObj [(''guid'', JStr ''chat1''), (''displayName'', JStr ''Family'')])
                                   (Some ''Chat not updated! No update information provided!'')
                                   None)\<rparr>,
      exampleStore,
      [CallGetConfig ''enable_private_api'',
       CallGetChats \<lparr>gc_chatGuid = Some ''chat1'', gc_withSMS = None,
                     gc_withParticipants = Some True\<rparr>])"
proof -
  let ?req = "exampleRequest Map.empty [(''displayName'', JStr [])]"
  have a: "js_prop (req_body ?req) ''displayName'' \<in> {JUndefined, JNull, JStr []}"
    by (simp add: exampleRequest_def js_prop_def)
  have e: "truthy (getConfig exampleEnv exampleStore ''enable_private_api'')"
    by (simp add: exampleEnv_def)
  have c: "getChats exampleEnv exampleStore
      \<lparr>gc_chatGuid = Some (req_guid ?req), gc_withSMS = None, gc_withParticipants = Some True\<rparr> =
      Some ((''chat1'', ''Family'') # [])"
    by (simp add: exampleEnv_def exampleStore_def exampleRequest_def)
  have r: "getChatResponse exampleEnv (''chat1'', ''Family'') =
      JObj [(''guid'', JStr ''chat1''), (''displayName'', JStr ''Family'')]"
    by (simp add: exampleEnv_def)
  have l: "snd (snd (update exampleEnv exampleStore ?req)) =
      [CallGetConfig ''enable_private_api'',
       CallGetChats \<lparr>gc_chatGuid = Some ''chat1'', gc_withSMS = None,
                     gc_withParticipants = Some True\<rparr>]"
    by (simp add: update_def exampleEnv_def exampleStore_def exampleRequest_def js_prop_def Let_def)
  from update_without_name_unchanged
    [of ?req "(''chat1'', ''Family'')" JNull exampleEnv exampleStore "(''chat1'', ''Family'')" "[]"]
    a e c r l
  show ?thesis by (auto simp: prod_eq_iff)
qed

end
